theory Spec2Isabelle
  imports Main
begin

section \<open>Package testt: capturing fatal and soft test failures\<close>

text \<open>
  The Go package \<^verbatim>\<open>testt\<close> (file \<^verbatim>\<open>testt.go\<close>) runs a function under test against
  \<^verbatim>\<open>fakeT\<close>, a stand-in for \<^verbatim>\<open>testing.TB\<close>. The fatal methods of the stand-in panic
  with a value of the package's own type \<^verbatim>\<open>failure\<close>; \<^verbatim>\<open>CaptureFatal\<close> recovers
  exactly that type and re-raises everything else.

  The embedding makes control flow a value: every call returns an \<open>outcome\<close>
  (a normal return, a panic with its value, or the end of the goroutine), and the
  state it leaves. Goroutines are interleaved by an explicit schedule.
\<close>

subsection \<open>Operands and the two fmt functions the package calls\<close>

text \<open>
  The operands a function under test hands to the variadic methods. Integers and
  strings are modelled; other Go values are outside the model.
\<close>

datatype operand = VInt int | VStr string

text \<open>Decimal digits of a natural number, most significant first.\<close>

fun digits :: "nat \<Rightarrow> string" where
  "digits n =
     (if n < 10 then [''0123456789'' ! n]
      else digits (n div 10) @ [''0123456789'' ! (n mod 10)])"

declare digits.simps [simp del]

definition itoa :: "int \<Rightarrow> string" where
  "itoa i = (if i < 0 then CHR ''-'' # digits (nat (- i)) else digits (nat i))"

text \<open>The default format of an operand (the verb \<^verbatim>\<open>%v\<close>) and the name of its type.\<close>

fun fmt_v :: "operand \<Rightarrow> string" where
  "fmt_v (VInt i) = itoa i"
| "fmt_v (VStr s) = s"

fun type_name :: "operand \<Rightarrow> string" where
  "type_name (VInt i) = ''int''"
| "type_name (VStr s) = ''string''"

fun join :: "string \<Rightarrow> string list \<Rightarrow> string" where
  "join sep [] = []"
| "join sep [x] = x"
| "join sep (x # y # ys) = x @ sep @ join sep (y # ys)"

text \<open>
  \<^verbatim>\<open>fmt.Sprintln\<close>: the operands in their default format, a space between any two,
  and a newline at the end.
\<close>

definition Sprintln :: "operand list \<Rightarrow> string" where
  "Sprintln args = join '' '' (map fmt_v args) @ [CHR 0x0A]"

text \<open>
  \<^verbatim>\<open>fmt.Sprintf\<close> belongs to Go's standard library, not to this package. Its
  directives \<^verbatim>\<open>%d\<close>, \<^verbatim>\<open>%s\<close>, \<^verbatim>\<open>%v\<close> and \<^verbatim>\<open>%%\<close> are modelled, with what fmt
  prints for an operand of the wrong kind, a missing operand, operands left over
  and a lone \<^verbatim>\<open>%\<close> at the end. Any other character after \<^verbatim>\<open>%\<close> is printed as a
  verb that fits no operand, which is what fmt does for a character that is no
  verb, flag, width or index; the further verbs, flags, widths, precisions and
  operand indexes of fmt are not modelled, and nothing below evaluates
  \<open>Sprintf\<close> on a format that has them.
\<close>

definition bad_verb :: "char \<Rightarrow> operand \<Rightarrow> string" where
  "bad_verb c a = ''%!'' @ [c] @ ''('' @ type_name a @ ''='' @ fmt_v a @ '')''"

fun print_arg :: "char \<Rightarrow> operand \<Rightarrow> string" where
  "print_arg c (VInt i) =
     (if c = CHR ''d'' \<or> c = CHR ''v'' then itoa i else bad_verb c (VInt i))"
| "print_arg c (VStr s) =
     (if c = CHR ''s'' \<or> c = CHR ''v'' then s else bad_verb c (VStr s))"

definition extra_args :: "operand list \<Rightarrow> string" where
  "extra_args args =
     (if args = [] then []
      else ''%!(EXTRA '' @ join '', '' (map (\<lambda>a. type_name a @ ''='' @ fmt_v a) args) @ '')'')"

fun Sprintf :: "string \<Rightarrow> operand list \<Rightarrow> string" where
  "Sprintf [] args = extra_args args"
| "Sprintf [c] args =
     (if c = CHR ''%'' then ''%!(NOVERB)'' @ extra_args args else c # extra_args args)"
| "Sprintf (c # v # fs) args =
     (if c \<noteq> CHR ''%'' then c # Sprintf (v # fs) args
      else if v = CHR ''%'' then CHR ''%'' # Sprintf fs args
      else (case args of
              [] \<Rightarrow> ''%!'' @ [v] @ ''(MISSING)'' @ Sprintf fs []
            | a # as \<Rightarrow> print_arg v a @ Sprintf fs as))"

subsection \<open>The real test context\<close>

text \<open>
  The argument \<^verbatim>\<open>t testing.TB\<close> of the four exported functions is the host
  framework's context. The package calls three of its methods and \<^verbatim>\<open>Fatalf\<close>; the
  context is modelled by the calls it has received, oldest first. The arguments
  of its \<^verbatim>\<open>Fatalf\<close> are kept as passed: an operand, or the map
  \<^verbatim>\<open>map[string]error\<close> of \<^verbatim>\<open>ParallelFatal\<close> (function name to message).
\<close>

datatype report_arg = Plain operand | ErrMap "(string \<times> string) list"

datatype tb_event =
    EvHelper
  | EvLog "operand list"
  | EvLogf string "operand list"
  | EvFatalf string "report_arg list"

type_synonym TB = "tb_event list"

text \<open>
  A panic value. \<open>failure\<close> is the package's type of line 123; a run-time error
  is what Go raises by itself (a nil dereference); \<open>panic_value\<close> is any other
  value a function under test panics with. A panic value is never nil: since
  Go 1.21 \<^verbatim>\<open>panic(nil)\<close> raises a run-time error.
\<close>

datatype panic = failure string | runtime_error string | panic_value operand

text \<open>
  How a call ends: it returns, it panics, or the goroutine ends under it
  (\<^verbatim>\<open>runtime.Goexit\<close>, which is how the \<^verbatim>\<open>FailNow\<close> of \<^verbatim>\<open>testing.TB\<close> stops the
  caller). \<open>Crashed\<close> is the end of the program by a panic that no frame of its
  goroutine recovered; only \<open>ParallelFatal\<close>, which starts goroutines, yields it.
\<close>

datatype 'a outcome = Returned 'a | Panicked panic | Goexit | Crashed panic

definition TB_Helper :: "TB \<Rightarrow> TB" where
  "TB_Helper t = t @ [EvHelper]"

definition TB_Log :: "operand list \<Rightarrow> TB \<Rightarrow> TB" where
  "TB_Log args t = t @ [EvLog args]"

definition TB_Logf :: "string \<Rightarrow> operand list \<Rightarrow> TB \<Rightarrow> TB" where
  "TB_Logf format args t = t @ [EvLogf format args]"

text \<open>
  \<^verbatim>\<open>Fatalf\<close> of \<^verbatim>\<open>testing.TB\<close> is \<^verbatim>\<open>Logf\<close> followed by \<^verbatim>\<open>FailNow\<close>: it records the
  failure and does not return, so the statement after it (line 38) is not reached.
\<close>

definition TB_Fatalf :: "string \<Rightarrow> report_arg list \<Rightarrow> TB \<Rightarrow> 'a outcome \<times> TB" where
  "TB_Fatalf format args t = (Goexit, t @ [EvFatalf format args])"

text \<open>The fatal failures a context has received.\<close>

fun is_fatalf :: "tb_event \<Rightarrow> bool" where
  "is_fatalf (EvFatalf format args) = True"
| "is_fatalf e = False"

definition fatals :: "TB \<Rightarrow> tb_event list" where
  "fatals t = filter is_fatalf t"

subsection \<open>Functions under test\<close>

text \<open>
  A function under test, \<^verbatim>\<open>func(t testing.TB)\<close>, sees its argument only through
  the methods it calls on it, and no method of \<open>fakeT\<close> returns a value. Its run is
  the sequence of those calls, in order, up to the first that does not return.
  \<open>Promoted m\<close> is a call of a method \<open>m\<close> of \<^verbatim>\<open>testing.TB\<close> that \<open>fakeT\<close> does not
  define (\<^verbatim>\<open>Skip\<close>, \<^verbatim>\<open>Name\<close>, \<^verbatim>\<open>Cleanup\<close>, ...); \<open>Panic v\<close> is a panic of the function's
  own. A function that never returns is outside the model.

  \<open>fname\<close> is what \<^verbatim>\<open>funcName\<close> (line 64) reads by reflection: the name of the code
  the function value points to. Closures made from one function literal share it.
\<close>

datatype stmt =
    FailNow
  | Fatal "operand list"
  | Fatalf string "operand list"
  | Log "operand list"
  | Logf string "operand list"
  | Errorf string "operand list"
  | Error "operand list"
  | Helper
  | Promoted string
  | Panic panic

record func =
  fname :: string
  body :: "stmt list"

definition funcName :: "func \<Rightarrow> string" where
  "funcName fn = fname fn"

subsection \<open>The stand-in context fakeT\<close>

text \<open>
  \<^verbatim>\<open>fakeT\<close> (line 112). Its field \<^verbatim>\<open>realT\<close> refers to the caller's context, which
  goroutines share: the state of that context is passed beside the record, not
  inside it. \<^verbatim>\<open>errs\<close> starts as the nil slice and only grows by \<^verbatim>\<open>append\<close>, so it
  is nil exactly when it is empty. The embedded interface \<^verbatim>\<open>testing.TB\<close> is nil.
\<close>

record fakeT =
  errs :: "string list"

type_synonym fstate = "fakeT \<times> TB"

definition fatal :: "string \<Rightarrow> fstate \<Rightarrow> unit outcome \<times> fstate" where
  "fatal msg s = (Panicked (failure msg), s)"

definition fakeT_FailNow :: "fstate \<Rightarrow> unit outcome \<times> fstate" where
  "fakeT_FailNow s = fatal [] s"

definition fakeT_Fatal :: "operand list \<Rightarrow> fstate \<Rightarrow> unit outcome \<times> fstate" where
  "fakeT_Fatal args s = fatal (Sprintln args) s"

definition fakeT_Fatalf :: "string \<Rightarrow> operand list \<Rightarrow> fstate \<Rightarrow> unit outcome \<times> fstate" where
  "fakeT_Fatalf format args s = fatal (Sprintf format args) s"

definition fakeT_Log :: "operand list \<Rightarrow> fstate \<Rightarrow> unit outcome \<times> fstate" where
  "fakeT_Log args s = (Returned (), fst s, TB_Log args (snd s))"

definition fakeT_Logf :: "string \<Rightarrow> operand list \<Rightarrow> fstate \<Rightarrow> unit outcome \<times> fstate" where
  "fakeT_Logf format args s = (Returned (), fst s, TB_Logf format args (snd s))"

definition fakeT_Errorf :: "string \<Rightarrow> operand list \<Rightarrow> fstate \<Rightarrow> unit outcome \<times> fstate" where
  "fakeT_Errorf format args s =
     (Returned (), (fst s)\<lparr>errs := errs (fst s) @ [Sprintf format args]\<rparr>, snd s)"

definition fakeT_Error :: "operand list \<Rightarrow> fstate \<Rightarrow> unit outcome \<times> fstate" where
  "fakeT_Error args s =
     (Returned (), (fst s)\<lparr>errs := errs (fst s) @ [Sprintln args]\<rparr>, snd s)"

definition fakeT_Helper :: "fstate \<Rightarrow> unit outcome \<times> fstate" where
  "fakeT_Helper s = (Returned (), s)"

text \<open>
  A method that \<open>fakeT\<close> does not define is promoted from the embedded interface,
  which is nil: the call dereferences nil and Go panics with a run-time error.
\<close>

definition nil_dereference :: panic where
  "nil_dereference = runtime_error ''invalid memory address or nil pointer dereference''"

definition fakeT_promoted :: "string \<Rightarrow> fstate \<Rightarrow> unit outcome \<times> fstate" where
  "fakeT_promoted m s = (Panicked nil_dereference, s)"

text \<open>One step of a function under test, and its whole run.\<close>

fun exec :: "stmt \<Rightarrow> fstate \<Rightarrow> unit outcome \<times> fstate" where
  "exec FailNow s = fakeT_FailNow s"
| "exec (Fatal args) s = fakeT_Fatal args s"
| "exec (Fatalf format args) s = fakeT_Fatalf format args s"
| "exec (Log args) s = fakeT_Log args s"
| "exec (Logf format args) s = fakeT_Logf format args s"
| "exec (Errorf format args) s = fakeT_Errorf format args s"
| "exec (Error args) s = fakeT_Error args s"
| "exec Helper s = fakeT_Helper s"
| "exec (Promoted m) s = fakeT_promoted m s"
| "exec (Panic v) s = (Panicked v, s)"

fun call_fn :: "stmt list \<Rightarrow> fstate \<Rightarrow> unit outcome \<times> fstate" where
  "call_fn [] s = (Returned (), s)"
| "call_fn (c # cs) s =
     (case exec c s of
        (Returned u, s') \<Rightarrow> call_fn cs s'
      | (r, s') \<Rightarrow> (r, s'))"

subsection \<open>CaptureFatal, ExpectFatal, ExpectError\<close>

text \<open>
  The deferred function of \<^verbatim>\<open>CaptureFatal\<close> (lines 47 to 59), applied to the way
  the call of \<^verbatim>\<open>fn\<close> ended: a \<open>failure\<close> becomes the returned message, no panic
  leaves the result nil, any other panic is raised again with the same value.
\<close>

fun recover_switch :: "unit outcome \<Rightarrow> string option outcome" where
  "recover_switch (Panicked (failure m)) = Returned (Some m)"
| "recover_switch (Returned u) = Returned None"
| "recover_switch (Panicked r) = Panicked r"
| "recover_switch Goexit = Goexit"
| "recover_switch (Crashed r) = Crashed r"

definition CaptureFatal :: "TB \<Rightarrow> func \<Rightarrow> string option outcome \<times> TB" where
  "CaptureFatal t fn =
     (case call_fn (body fn) (\<lparr>errs = []\<rparr>, TB_Helper t) of
        (r, ft, t') \<Rightarrow> (recover_switch r, t'))"

definition ExpectFatal :: "TB \<Rightarrow> func \<Rightarrow> string outcome \<times> TB" where
  "ExpectFatal t fn =
     (case CaptureFatal (TB_Helper t) fn of
        (Returned (Some m), t') \<Rightarrow> (Returned m, t')
      | (Returned None, t') \<Rightarrow>
          TB_Fatalf ''%s did not fail fatally as expected'' [Plain (VStr (funcName fn))] t'
      | (Panicked r, t') \<Rightarrow> (Panicked r, t')
      | (Goexit, t') \<Rightarrow> (Goexit, t')
      | (Crashed r, t') \<Rightarrow> (Crashed r, t'))"

text \<open>\<^verbatim>\<open>ExpectError\<close> installs no recover: a panic of \<^verbatim>\<open>fn\<close> leaves it as it is.\<close>

definition ExpectError :: "TB \<Rightarrow> func \<Rightarrow> string list outcome \<times> TB" where
  "ExpectError t fn =
     (case call_fn (body fn) (\<lparr>errs = []\<rparr>, TB_Helper t) of
        (Returned u, ft, t') \<Rightarrow>
          (if errs ft = []
           then TB_Fatalf ''%s did not raise an error as was expected''
                  [Plain (VStr (funcName fn))] t'
           else (Returned (errs ft), t'))
      | (Panicked r, ft, t') \<Rightarrow> (Panicked r, t')
      | (Goexit, ft, t') \<Rightarrow> (Goexit, t')
      | (Crashed r, ft, t') \<Rightarrow> (Crashed r, t'))"

subsection \<open>ParallelFatal\<close>

text \<open>
  The map \<^verbatim>\<open>fnErrs\<close> (line 86) as an association list with one entry per key;
  its length is the \<^verbatim>\<open>len\<close> of the map, and the order of its entries means
  nothing. \<open>addErr\<close> is the assignment \<^verbatim>\<open>fnErrs[fn] = err\<close> of line 91, which the
  mutex makes one step.
\<close>

fun addErr :: "string \<Rightarrow> string \<Rightarrow> (string \<times> string) list \<Rightarrow> (string \<times> string) list" where
  "addErr fn err [] = [(fn, err)]"
| "addErr fn err ((k, v) # m) =
     (if k = fn then (k, err) # m else (k, v) # addErr fn err m)"

text \<open>
  What the goroutines share: the real context, the map, and whether a panic has
  ended the program.
\<close>

record shared =
  ctx :: TB
  fnErrs :: "(string \<times> string) list"
  crash :: "panic option"

text \<open>
  A goroutine of lines 97 to 102: started and about to call \<^verbatim>\<open>CaptureFatal\<close>;
  inside the call of \<^verbatim>\<open>fn\<close>, with the statements still to run and its own
  \<open>fakeT\<close>; or finished, with the \<^verbatim>\<open>errMsg\<close> that \<^verbatim>\<open>CaptureFatal\<close> returned to it.
\<close>

datatype goroutine =
    Spawned func
  | Running func "stmt list" fakeT
  | Finished func "string option"

text \<open>
  The end of the call of \<^verbatim>\<open>fn\<close> in a goroutine: the recover of \<^verbatim>\<open>CaptureFatal\<close>,
  then lines 99 to 101. A panic that is raised again has no frame left to recover
  it and ends the program.
\<close>

definition unit_done :: "func \<Rightarrow> unit outcome \<Rightarrow> fakeT \<Rightarrow> stmt list \<Rightarrow> shared \<Rightarrow> goroutine \<times> shared" where
  "unit_done fn r ft cs sh =
     (case recover_switch r of
        Returned None \<Rightarrow> (Finished fn None, sh)
      | Returned (Some errMsg) \<Rightarrow>
          (Finished fn (Some errMsg),
           sh\<lparr>fnErrs := addErr (funcName fn) errMsg (fnErrs sh)\<rparr>)
      | Panicked v \<Rightarrow> (Running fn cs ft, sh\<lparr>crash := Some v\<rparr>)
      | Goexit \<Rightarrow> (Finished fn None, sh)
      | Crashed v \<Rightarrow> (Running fn cs ft, sh\<lparr>crash := Some v\<rparr>))"

text \<open>
  One step of a goroutine. A call on the real context is one step: the package
  leaves it to that context to be safe under concurrent use.
\<close>

fun go_step :: "goroutine \<Rightarrow> shared \<Rightarrow> goroutine \<times> shared" where
  "go_step (Spawned fn) sh =
     (Running fn (body fn) \<lparr>errs = []\<rparr>, sh\<lparr>ctx := TB_Helper (ctx sh)\<rparr>)"
| "go_step (Running fn [] ft) sh = unit_done fn (Returned ()) ft [] sh"
| "go_step (Running fn (c # cs) ft) sh =
     (case exec c (ft, ctx sh) of
        (Returned u, ft', t') \<Rightarrow> (Running fn cs ft', sh\<lparr>ctx := t'\<rparr>)
      | (r, ft', t') \<Rightarrow> unit_done fn r ft' (c # cs) (sh\<lparr>ctx := t'\<rparr>))"
| "go_step (Finished fn r) sh = (Finished fn r, sh)"

text \<open>
  The scheduler picks goroutine \<open>i\<close>. Nothing runs once the program has crashed,
  and an index that names no goroutine is passed over.
\<close>

definition sched_step :: "nat \<Rightarrow> goroutine list \<times> shared \<Rightarrow> goroutine list \<times> shared" where
  "sched_step i w =
     (if crash (snd w) \<noteq> None \<or> length (fst w) \<le> i then w
      else (case go_step (fst w ! i) (snd w) of (g, sh) \<Rightarrow> ((fst w)[i := g], sh)))"

definition run_sched :: "nat list \<Rightarrow> goroutine list \<times> shared \<Rightarrow> goroutine list \<times> shared" where
  "run_sched sched w = fold sched_step sched w"

text \<open>
  \<^verbatim>\<open>wg.Wait()\<close> returns when every goroutine is done. A goroutine needs one step
  to enter \<^verbatim>\<open>fn\<close>, at most one for each statement and one to leave; \<open>join_sched\<close>
  gives every goroutine that many steps, so it finishes whatever a schedule left.
\<close>

definition join_sched :: "func list \<Rightarrow> nat list" where
  "join_sched fns =
     concat (map (\<lambda>i. replicate (length (body (fns ! i)) + 2) i) [0..<length fns])"

text \<open>
  \<^verbatim>\<open>ParallelFatal\<close> (line 84). \<open>sched\<close> is the order in which the Go runtime lets
  the goroutines step: any list of indexes, each standing for one possible run.
\<close>

definition ParallelFatal :: "nat list \<Rightarrow> TB \<Rightarrow> func list \<Rightarrow> unit outcome \<times> TB" where
  "ParallelFatal sched t fns =
     (case run_sched (sched @ join_sched fns)
             (map Spawned fns, \<lparr>ctx = TB_Helper t, fnErrs = [], crash = None\<rparr>) of
        (gs, sh) \<Rightarrow>
          (case crash sh of
             Some v \<Rightarrow> (Crashed v, ctx sh)
           | None \<Rightarrow>
               (if 0 < length (fnErrs sh)
                then TB_Fatalf ''ParallelFatal: %d functions failed fatally: %v''
                       [Plain (VInt (int (length (fnErrs sh)))), ErrMap (fnErrs sh)] (ctx sh)
                else (Returned (), ctx sh))))"

subsection \<open>Vocabulary of the properties\<close>

text \<open>
  The statements whose call returns: the two logging methods, the two methods that
  record an error, and \<^verbatim>\<open>Helper\<close>. Every other statement ends the run with a panic.
\<close>

fun soft :: "stmt \<Rightarrow> bool" where
  "soft (Log args) = True"
| "soft (Logf format args) = True"
| "soft (Errorf format args) = True"
| "soft (Error args) = True"
| "soft Helper = True"
| "soft c = False"

text \<open>
  The strings the \<^verbatim>\<open>Error\<close> and \<^verbatim>\<open>Errorf\<close> calls of a run format, in the order of
  the calls: what the specification says \<^verbatim>\<open>ExpectError\<close> returns.
\<close>

fun formatted_errors :: "stmt list \<Rightarrow> string list" where
  "formatted_errors [] = []"
| "formatted_errors (Errorf format args # cs) = Sprintf format args # formatted_errors cs"
| "formatted_errors (Error args # cs) = Sprintln args # formatted_errors cs"
| "formatted_errors (c # cs) = formatted_errors cs"

text \<open>
  The calls a run delegates to the real context: its \<^verbatim>\<open>Log\<close> and \<^verbatim>\<open>Logf\<close> calls up to
  the first statement that does not return.
\<close>

fun logged :: "stmt list \<Rightarrow> tb_event list" where
  "logged [] = []"
| "logged (Log args # cs) = EvLog args # logged cs"
| "logged (Logf format args # cs) = EvLogf format args # logged cs"
| "logged (c # cs) = (if soft c then logged cs else [])"

fun error_call :: "stmt \<Rightarrow> bool" where
  "error_call (Errorf format args) = True"
| "error_call (Error args) = True"
| "error_call c = False"












text \<open>
  The calls a context has received, its \<^verbatim>\<open>Helper\<close> calls aside. \<^verbatim>\<open>Helper\<close> only marks
  the calling function as a helper, for the file and line that the host framework
  prints with a report; it reports and records nothing.
\<close>

fun is_helper :: "tb_event \<Rightarrow> bool" where
  "is_helper EvHelper = True"
| "is_helper e = False"

definition effects :: "TB \<Rightarrow> tb_event list" where
  "effects t = filter (\<lambda>e. \<not> is_helper e) t"


section \<open>Properties\<close>

subsection \<open>Runs of a function under test\<close>

lemmas fakeT_defs = fatal_def fakeT_FailNow_def fakeT_Fatal_def fakeT_Fatalf_def
  fakeT_Log_def fakeT_Logf_def fakeT_Errorf_def fakeT_Error_def fakeT_Helper_def
  fakeT_promoted_def TB_Log_def TB_Logf_def





lemma call_fn_soft:
  "list_all soft cs \<Longrightarrow>
   call_fn cs (ft, t) = (Returned (), ft\<lparr>errs := errs ft @ formatted_errors cs\<rparr>, t @ logged cs)"
proof (induction cs arbitrary: ft t)
  case Nil
  then show ?case by simp
next
  case (Cons c cs)
  then show ?case by (cases c) (simp_all add: fakeT_defs)
qed

lemma call_fn_ctx: "snd (snd (call_fn cs (ft, t))) = t @ logged cs"
proof (induction cs arbitrary: ft t)
  case Nil
  then show ?case by simp
next
  case (Cons c cs)
  then show ?case by (cases c) (simp_all add: fakeT_defs)
qed

lemma call_fn_outcome_indep: "fst (call_fn cs s) = fst (call_fn cs s')"
proof (induction cs arbitrary: s s')
  case Nil
  then show ?case by simp
next
  case (Cons c cs)
  obtain ft t where s: "s = (ft, t)" by (cases s)
  obtain ft' t' where s': "s' = (ft', t')" by (cases s')
  show ?case unfolding s s' using Cons.IH
    by (cases c) (simp_all add: fakeT_defs)
qed

lemma call_fn_returns_iff: "fst (call_fn cs s) = Returned () \<longleftrightarrow> list_all soft cs"
proof (induction cs arbitrary: s)
  case Nil
  then show ?case by simp
next
  case (Cons c cs)
  obtain ft t where s: "s = (ft, t)" by (cases s)
  show ?case unfolding s using Cons.IH
    by (cases c) (simp_all add: fakeT_defs)
qed

lemma CaptureFatal_ctx: "snd (CaptureFatal t fn) = TB_Helper t @ logged (body fn)"
  using call_fn_ctx [of "body fn" "\<lparr>errs = []\<rparr>" "TB_Helper t"]
  by (auto simp: CaptureFatal_def split: prod.splits)

lemma CaptureFatal_outcome_indep: "fst (CaptureFatal t fn) = fst (CaptureFatal t' fn)"
  using call_fn_outcome_indep [of "body fn" "(\<lparr>errs = []\<rparr>, TB_Helper t)" "(\<lparr>errs = []\<rparr>, TB_Helper t')"]
  by (auto simp: CaptureFatal_def split: prod.splits)

lemma call_fn_outcome:
  "fst (call_fn cs s) = Returned () \<or> (\<exists>v. fst (call_fn cs s) = Panicked v)"
proof (induction cs arbitrary: s)
  case Nil
  then show ?case by simp
next
  case (Cons c cs)
  obtain ft t where s: "s = (ft, t)" by (cases s)
  show ?case unfolding s using Cons.IH
    by (cases c) (simp_all add: fakeT_defs)
qed

lemma CaptureFatal_outcome:
  "(\<exists>r. fst (CaptureFatal t fn) = Returned r) \<or> (\<exists>v. fst (CaptureFatal t fn) = Panicked v)"
proof -
  obtain u ft t' where c: "call_fn (body fn) (\<lparr>errs = []\<rparr>, TB_Helper t) = (u, ft, t')"
    by (cases "call_fn (body fn) (\<lparr>errs = []\<rparr>, TB_Helper t)")
  from call_fn_outcome [of "body fn" "(\<lparr>errs = []\<rparr>, TB_Helper t)"] c
  have "u = Returned () \<or> (\<exists>v. u = Panicked v)" by simp
  then show ?thesis
  proof
    assume "u = Returned ()"
    with c show ?thesis by (simp add: CaptureFatal_def)
  next
    assume "\<exists>v. u = Panicked v"
    then obtain v where "u = Panicked v" ..
    with c show ?thesis by (cases v) (simp_all add: CaptureFatal_def)
  qed
qed

lemma CaptureFatal_eq:
  "CaptureFatal t fn =
     (recover_switch (fst (call_fn (body fn) (\<lparr>errs = []\<rparr>, TB_Helper t))),
      TB_Helper t @ logged (body fn))"
  using call_fn_ctx [of "body fn" "\<lparr>errs = []\<rparr>" "TB_Helper t"]
  by (auto simp: CaptureFatal_def split: prod.splits)

lemma logged_drop_errors: "logged (filter (\<lambda>c. \<not> error_call c) cs) = logged cs"
  by (induction cs rule: logged.induct) simp_all

lemma call_fn_drop_errors:
  "fst (call_fn (filter (\<lambda>c. \<not> error_call c) cs) s) = fst (call_fn cs s)"
proof (induction cs arbitrary: s)
  case Nil
  then show ?case by simp
next
  case (Cons c cs)
  obtain ft t where s: "s = (ft, t)" by (cases s)
  show ?case
  proof (cases "error_call c")
    case True
    then obtain ft' where "exec c (ft, t) = (Returned (), ft', t)"
      by (cases c) (simp_all add: fakeT_defs)
    then show ?thesis
      using True Cons.IH [of "(ft, t)"] call_fn_outcome_indep [of cs "(ft, t)" "(ft', t)"]
      by (simp add: s)
  next
    case False
    then show ?thesis using Cons.IH
      by (cases c) (simp_all add: s fakeT_defs)
  qed
qed

lemma error_calls_soft: "list_all error_call cs \<Longrightarrow> list_all soft cs \<and> logged cs = []"
  by (induction cs rule: logged.induct) simp_all

lemma fatals_logged: "fatals (t @ logged cs) = fatals t"
  by (induction cs rule: logged.induct) (simp_all add: fatals_def)

lemma fatals_Helper: "fatals (TB_Helper t) = fatals t"
  by (simp add: fatals_def TB_Helper_def)

lemma CaptureFatal_fatals: "fatals (snd (CaptureFatal t fn)) = fatals t"
  by (simp add: CaptureFatal_ctx fatals_logged fatals_Helper)

lemma call_fn_append_soft:
  "list_all soft pre \<Longrightarrow>
   call_fn (pre @ cs) (ft, t) =
     call_fn cs (ft\<lparr>errs := errs ft @ formatted_errors pre\<rparr>, t @ logged pre)"
proof (induction pre arbitrary: ft t)
  case Nil
  then show ?case by simp
next
  case (Cons c pre)
  then show ?case by (cases c) (simp_all add: fakeT_defs)
qed



lemma CaptureFatal_drop_errors:
  "CaptureFatal t (fn\<lparr>body := filter (\<lambda>c. \<not> error_call c) (body fn)\<rparr>) = CaptureFatal t fn"
  by (simp add: CaptureFatal_eq logged_drop_errors call_fn_drop_errors)

lemma effects_logged: "effects (t @ logged cs) = effects t @ logged cs"
  by (induction cs rule: logged.induct) (simp_all add: effects_def)

lemma effects_Helper: "effects (TB_Helper t) = effects t"
  by (simp add: effects_def TB_Helper_def)

subsection \<open>The claims about a single function under test\<close>

text \<open>
  C2. A panic raised while \<^verbatim>\<open>fn\<close> runs whose value is not of type \<open>failure\<close> leaves
  \<^verbatim>\<open>CaptureFatal\<close> as a panic with the same value: it is neither swallowed nor turned
  into a returned message.
\<close>

theorem CaptureFatal_reraises:
  assumes "call_fn (body fn) (\<lparr>errs = []\<rparr>, TB_Helper t) = (Panicked v, ft, t')"
    and "\<forall>m. v \<noteq> failure m"
  shows "CaptureFatal t fn = (Panicked v, t')"
  using assms by (cases v) (simp_all add: CaptureFatal_def)

theorem CaptureFatal_reraises_witness:
  "CaptureFatal [] \<lparr>fname = ''pkg.f'', body = [Log [VStr ''x''], Panic (panic_value (VStr ''oops'')), FailNow]\<rparr>
     = (Panicked (panic_value (VStr ''oops'')), [EvHelper, EvLog [VStr ''x'']])"
  using CaptureFatal_reraises [of "\<lparr>fname = ''pkg.f'', body = [Log [VStr ''x''], Panic (panic_value (VStr ''oops'')), FailNow]\<rparr>"
      "[]" "panic_value (VStr ''oops'')" "\<lparr>errs = []\<rparr>" "[EvHelper, EvLog [VStr ''x'']]"]
  by (simp add: fakeT_defs TB_Helper_def)

text \<open>
  C3. \<^verbatim>\<open>ExpectFatal\<close> raises a fatal failure on the real context, with a message
  that names the function, exactly when \<^verbatim>\<open>CaptureFatal\<close> returns nil; that is also
  exactly when the real context ends the goroutine under it. When \<^verbatim>\<open>CaptureFatal\<close>
  returns a message, \<^verbatim>\<open>ExpectFatal\<close> raises nothing and returns that message.
\<close>

theorem ExpectFatal_iff_absent:
  "fatals (snd (ExpectFatal t fn)) =
     (if fst (CaptureFatal t fn) = Returned None
      then fatals t @ [EvFatalf ''%s did not fail fatally as expected'' [Plain (VStr (funcName fn))]]
      else fatals t)
   \<and> (fst (ExpectFatal t fn) = Goexit \<longleftrightarrow> fst (CaptureFatal t fn) = Returned None)
   \<and> (\<forall>m. fst (CaptureFatal t fn) = Returned (Some m) \<longrightarrow> fst (ExpectFatal t fn) = Returned m)"
proof -
  obtain r t' where c: "CaptureFatal (TB_Helper t) fn = (r, t')"
    by (cases "CaptureFatal (TB_Helper t) fn")
  have r: "fst (CaptureFatal t fn) = r"
    using CaptureFatal_outcome_indep [of t fn "TB_Helper t"] c by simp
  have f: "fatals t' = fatals t"
    using CaptureFatal_fatals [of "TB_Helper t" fn] c by (simp add: fatals_Helper)
  have ng: "r \<noteq> Goexit"
    using CaptureFatal_outcome [of "TB_Helper t" fn] c by auto
  show ?thesis
    unfolding r using c f ng
    by (cases r) (auto simp: ExpectFatal_def TB_Fatalf_def fatals_def split: option.splits)
qed

theorem ExpectFatal_iff_absent_witness:
  "ExpectFatal [] \<lparr>fname = ''pkg.f'', body = [Log [VStr ''x''], FailNow]\<rparr>
     = (Returned [], [EvHelper, EvHelper, EvLog [VStr ''x'']])
   \<and> fst (ExpectFatal [] \<lparr>fname = ''pkg.g'', body = [Log [VStr ''x'']]\<rparr>) = Goexit
   \<and> fatals (snd (ExpectFatal [] \<lparr>fname = ''pkg.g'', body = [Log [VStr ''x'']]\<rparr>))
     = [EvFatalf ''%s did not fail fatally as expected'' [Plain (VStr ''pkg.g'')]]"
  using ExpectFatal_iff_absent [of "[]" "\<lparr>fname = ''pkg.f'', body = [Log [VStr ''x''], FailNow]\<rparr>"]
    ExpectFatal_iff_absent [of "[]" "\<lparr>fname = ''pkg.g'', body = [Log [VStr ''x'']]\<rparr>"]
  by (simp add: ExpectFatal_def CaptureFatal_def fakeT_defs TB_Helper_def TB_Fatalf_def
      fatals_def funcName_def)

text \<open>
  C4. A function under test that only calls \<^verbatim>\<open>Fatalf(format, args...)\<close> makes
  \<^verbatim>\<open>CaptureFatal\<close> return the string that \<^verbatim>\<open>Sprintf\<close> formats from \<open>format\<close> and
  \<open>args\<close>; for \<^verbatim>\<open>Fatalf("boom %d", 5)\<close> that string is \<^verbatim>\<open>boom 5\<close>.
\<close>

theorem CaptureFatal_Fatalf:
  "CaptureFatal t \<lparr>fname = n, body = [Fatalf format args]\<rparr>
     = (Returned (Some (Sprintf format args)), TB_Helper t)
   \<and> CaptureFatal t \<lparr>fname = n, body = [Fatalf ''boom %d'' [VInt 5]]\<rparr>
     = (Returned (Some ''boom 5''), TB_Helper t)"
  by (simp add: CaptureFatal_def fakeT_Fatalf_def fatal_def itoa_def digits.simps extra_args_def)

text \<open>
  C5. For a function under test that only makes calls that return (so none of
  the fatal methods), \<^verbatim>\<open>ExpectError\<close> returns the formatted strings of its \<^verbatim>\<open>Error\<close>
  and \<^verbatim>\<open>Errorf\<close> calls in the order of the calls; when there is none, it raises a
  fatal failure on the real context that names the function. \<^verbatim>\<open>Error("a")\<close> followed
  by \<^verbatim>\<open>Error("b")\<close> gives the two strings \<^verbatim>\<open>a\<close> and \<^verbatim>\<open>b\<close>, each with a newline.
\<close>

theorem ExpectError_call_order:
  assumes "list_all soft (body fn)"
  shows "ExpectError t fn =
     (if formatted_errors (body fn) = []
      then (Goexit, TB_Helper t @ logged (body fn) @
              [EvFatalf ''%s did not raise an error as was expected'' [Plain (VStr (funcName fn))]])
      else (Returned (formatted_errors (body fn)), TB_Helper t @ logged (body fn)))
   \<and> ExpectError t \<lparr>fname = n, body = [Error [VStr ''a''], Error [VStr ''b'']]\<rparr>
     = (Returned [''a'' @ [CHR 0x0A], ''b'' @ [CHR 0x0A]], TB_Helper t)"
proof
  show "ExpectError t fn =
     (if formatted_errors (body fn) = []
      then (Goexit, TB_Helper t @ logged (body fn) @
              [EvFatalf ''%s did not raise an error as was expected'' [Plain (VStr (funcName fn))]])
      else (Returned (formatted_errors (body fn)), TB_Helper t @ logged (body fn)))"
    using call_fn_soft [OF assms, of "\<lparr>errs = []\<rparr>" "TB_Helper t"]
    by (simp add: ExpectError_def TB_Fatalf_def)
  show "ExpectError t \<lparr>fname = n, body = [Error [VStr ''a''], Error [VStr ''b'']]\<rparr>
     = (Returned [''a'' @ [CHR 0x0A], ''b'' @ [CHR 0x0A]], TB_Helper t)"
    by (simp add: ExpectError_def fakeT_Error_def Sprintln_def)
qed

theorem ExpectError_call_order_witness:
  "ExpectError [] \<lparr>fname = ''pkg.f'',
       body = [Errorf ''n=%d'' [VInt 7], Log [VStr ''x''], Error [VStr ''b'', VInt 2]]\<rparr>
     = (Returned [''n=7'', ''b 2'' @ [CHR 0x0A]], [EvHelper, EvLog [VStr ''x'']])
   \<and> ExpectError [] \<lparr>fname = ''pkg.g'', body = [Log [VStr ''x'']]\<rparr>
     = (Goexit, [EvHelper, EvLog [VStr ''x''],
          EvFatalf ''%s did not raise an error as was expected'' [Plain (VStr ''pkg.g'')]])"
  using ExpectError_call_order [of "\<lparr>fname = ''pkg.f'',
       body = [Errorf ''n=%d'' [VInt 7], Log [VStr ''x''], Error [VStr ''b'', VInt 2]]\<rparr>" "[]" "[]"]
    ExpectError_call_order [of "\<lparr>fname = ''pkg.g'', body = [Log [VStr ''x'']]\<rparr>" "[]" "[]"]
  by (simp add: TB_Helper_def Sprintln_def itoa_def digits.simps funcName_def extra_args_def)

text \<open>
  C6. For a function under test that calls no fatal method and returns, that is
  one whose statements all return, \<^verbatim>\<open>CaptureFatal\<close> returns nil.
\<close>

theorem CaptureFatal_absent:
  assumes "list_all soft (body fn)"
  shows "CaptureFatal t fn = (Returned None, TB_Helper t @ logged (body fn))"
  using call_fn_soft [OF assms, of "\<lparr>errs = []\<rparr>" "TB_Helper t"]
  by (simp add: CaptureFatal_def)

theorem CaptureFatal_absent_witness:
  "CaptureFatal [] \<lparr>fname = ''pkg.f'', body = [Helper, Error [VStr ''a''], Logf ''%d'' [VInt 1]]\<rparr>
     = (Returned None, [EvHelper, EvLogf ''%d'' [VInt 1]])"
  using CaptureFatal_absent [of "\<lparr>fname = ''pkg.f'', body = [Helper, Error [VStr ''a''], Logf ''%d'' [VInt 1]]\<rparr>" "[]"]
  by (simp add: TB_Helper_def)

text \<open>
  C7. \<^verbatim>\<open>FailNow\<close> on the stand-in panics with the \<open>failure\<close> of the empty message,
  and \<^verbatim>\<open>CaptureFatal\<close> of a function that only calls \<^verbatim>\<open>FailNow\<close> returns the empty
  string.
\<close>

theorem FailNow_empty_message:
  "exec FailNow s = (Panicked (failure []), s)
   \<and> CaptureFatal t \<lparr>fname = n, body = [FailNow]\<rparr> = (Returned (Some []), TB_Helper t)"
  by (simp add: CaptureFatal_def fakeT_FailNow_def fatal_def)

text \<open>
  C8. A call of a method of \<^verbatim>\<open>testing.TB\<close> that \<open>fakeT\<close> does not define panics
  with a nil dereference, whatever the state; when a run reaches such a call the
  panic leaves \<^verbatim>\<open>CaptureFatal\<close>, \<^verbatim>\<open>ExpectFatal\<close> and \<^verbatim>\<open>ExpectError\<close> unrecovered.
  \<^verbatim>\<open>Helper\<close> returns and changes nothing.
\<close>

theorem unimplemented_method_panics:
  "exec (Promoted m) s = (Panicked nil_dereference, s)
   \<and> exec Helper s = (Returned (), s)
   \<and> (list_all soft pre \<longrightarrow>
        fst (call_fn (pre @ Promoted m # post) s) = Panicked nil_dereference
      \<and> fst (CaptureFatal t \<lparr>fname = n, body = pre @ Promoted m # post\<rparr>) = Panicked nil_dereference
      \<and> fst (ExpectFatal t \<lparr>fname = n, body = pre @ Promoted m # post\<rparr>) = Panicked nil_dereference
      \<and> fst (ExpectError t \<lparr>fname = n, body = pre @ Promoted m # post\<rparr>) = Panicked nil_dereference)"
proof (intro conjI impI)
  show "exec (Promoted m) s = (Panicked nil_dereference, s)"
    by (simp add: fakeT_promoted_def)
  show "exec Helper s = (Returned (), s)"
    by (simp add: fakeT_Helper_def)
next
  assume pre: "list_all soft pre"
  have run: "fst (call_fn (pre @ Promoted m # post) (ft, u)) = Panicked nil_dereference" for ft u
    by (simp add: call_fn_append_soft [OF pre] fakeT_promoted_def)
  show "fst (call_fn (pre @ Promoted m # post) s) = Panicked nil_dereference"
    using run by (cases s) simp
  have c: "fst (CaptureFatal u \<lparr>fname = n, body = pre @ Promoted m # post\<rparr>) = Panicked nil_dereference" for u
    using run [of "\<lparr>errs = []\<rparr>" "TB_Helper u"]
    by (simp add: CaptureFatal_eq nil_dereference_def)
  show "fst (CaptureFatal t \<lparr>fname = n, body = pre @ Promoted m # post\<rparr>) = Panicked nil_dereference"
    by (rule c)
  show "fst (ExpectFatal t \<lparr>fname = n, body = pre @ Promoted m # post\<rparr>) = Panicked nil_dereference"
    using c [of "TB_Helper t"] by (auto simp: ExpectFatal_def split: prod.splits)
  show "fst (ExpectError t \<lparr>fname = n, body = pre @ Promoted m # post\<rparr>) = Panicked nil_dereference"
    using run [of "\<lparr>errs = []\<rparr>" "TB_Helper t"]
    by (auto simp: ExpectError_def split: prod.splits)
qed

theorem unimplemented_method_panics_witness:
  "CaptureFatal [] \<lparr>fname = ''pkg.f'', body = [Helper, Log [VStr ''x''], Promoted ''Skip'', FailNow]\<rparr>
     = (Panicked nil_dereference, [EvHelper, EvLog [VStr ''x'']])
   \<and> fst (ExpectError [] \<lparr>fname = ''pkg.f'', body = [Helper, Log [VStr ''x''], Promoted ''Skip'', FailNow]\<rparr>)
     = Panicked nil_dereference"
  using unimplemented_method_panics [of "''Skip''" "(\<lparr>errs = []\<rparr>, [])" "[Helper, Log [VStr ''x'']]" "[FailNow]" "[]" "''pkg.f''"]
    CaptureFatal_ctx [of "[]" "\<lparr>fname = ''pkg.f'', body = [Helper, Log [VStr ''x''], Promoted ''Skip'', FailNow]\<rparr>"]
  by (simp add: prod_eq_iff TB_Helper_def)

text \<open>
  C10. The \<^verbatim>\<open>Error\<close> and \<^verbatim>\<open>Errorf\<close> calls made during \<^verbatim>\<open>CaptureFatal\<close> or
  \<^verbatim>\<open>ExpectFatal\<close> are discarded: removing them from the function changes neither the
  result nor the real context. \<^verbatim>\<open>CaptureFatal\<close> passes to the real context its own
  \<^verbatim>\<open>Helper\<close> call (line 45) and the delegated \<^verbatim>\<open>Log\<close> and \<^verbatim>\<open>Logf\<close> calls, nothing else:
  \<^verbatim>\<open>Helper\<close> calls aside, the real context has received the calls it had before and
  then those \<^verbatim>\<open>Log\<close> and \<^verbatim>\<open>Logf\<close> calls. For a function that only records errors
  the result is nil and, \<^verbatim>\<open>Helper\<close> calls aside, the real context is as it was.
\<close>

theorem soft_errors_discarded:
  "CaptureFatal t (fn\<lparr>body := filter (\<lambda>c. \<not> error_call c) (body fn)\<rparr>) = CaptureFatal t fn
   \<and> ExpectFatal t (fn\<lparr>body := filter (\<lambda>c. \<not> error_call c) (body fn)\<rparr>) = ExpectFatal t fn
   \<and> snd (CaptureFatal t fn) = TB_Helper t @ logged (body fn)
   \<and> effects (snd (CaptureFatal t fn)) = effects t @ logged (body fn)
   \<and> (list_all error_call (body fn) \<longrightarrow>
        CaptureFatal t fn = (Returned None, TB_Helper t)
      \<and> effects (snd (CaptureFatal t fn)) = effects t)"
proof (intro conjI impI)
  show "CaptureFatal t (fn\<lparr>body := filter (\<lambda>c. \<not> error_call c) (body fn)\<rparr>) = CaptureFatal t fn"
    by (rule CaptureFatal_drop_errors)
  show "ExpectFatal t (fn\<lparr>body := filter (\<lambda>c. \<not> error_call c) (body fn)\<rparr>) = ExpectFatal t fn"
    by (simp add: ExpectFatal_def CaptureFatal_drop_errors funcName_def
        split: prod.splits outcome.splits option.splits)
  show "snd (CaptureFatal t fn) = TB_Helper t @ logged (body fn)"
    by (simp add: CaptureFatal_eq)
  show "effects (snd (CaptureFatal t fn)) = effects t @ logged (body fn)"
    by (simp add: CaptureFatal_eq effects_logged effects_Helper)
next
  assume "list_all error_call (body fn)"
  then have s: "list_all soft (body fn)" and l: "logged (body fn) = []"
    using error_calls_soft by blast+
  show "CaptureFatal t fn = (Returned None, TB_Helper t)"
    using call_fn_soft [OF s, of "\<lparr>errs = []\<rparr>" "TB_Helper t"] by (simp add: CaptureFatal_def l)
  show "effects (snd (CaptureFatal t fn)) = effects t"
    by (simp add: CaptureFatal_eq l effects_Helper)
qed

theorem soft_errors_discarded_witness:
  "CaptureFatal [EvLog [VStr ''before'']]
       \<lparr>fname = ''pkg.f'', body = [Error [VStr ''a''], Errorf ''%d'' [VInt 3]]\<rparr>
     = (Returned None, [EvLog [VStr ''before''], EvHelper])
   \<and> effects (snd (CaptureFatal [EvLog [VStr ''before'']]
       \<lparr>fname = ''pkg.f'', body = [Error [VStr ''a''], Errorf ''%d'' [VInt 3]]\<rparr>))
     = [EvLog [VStr ''before'']]
   \<and> ExpectFatal [] \<lparr>fname = ''pkg.g'', body = [Error [VStr ''a''], Log [VStr ''x''], FailNow]\<rparr>
     = ExpectFatal [] \<lparr>fname = ''pkg.g'', body = [Log [VStr ''x''], FailNow]\<rparr>"
  using soft_errors_discarded [of "[EvLog [VStr ''before'']]"
      "\<lparr>fname = ''pkg.f'', body = [Error [VStr ''a''], Errorf ''%d'' [VInt 3]]\<rparr>"]
    soft_errors_discarded [of "[]"
      "\<lparr>fname = ''pkg.g'', body = [Error [VStr ''a''], Log [VStr ''x''], FailNow]\<rparr>"]
  by (simp add: TB_Helper_def effects_def prod_eq_iff)

subsection \<open>Runs of the goroutines of ParallelFatal\<close>
























subsection \<open>The claims about ParallelFatal\<close>



text \<open>
  C9. With no function, \<^verbatim>\<open>ParallelFatal\<close> returns on every schedule: no goroutine
  is started, the map stays empty, and the real context receives the \<^verbatim>\<open>Helper\<close> call
  of line 85 and no fatal failure.
\<close>

theorem ParallelFatal_no_functions:
  "ParallelFatal sched t [] = (Returned (), TB_Helper t)
   \<and> fatals (snd (ParallelFatal sched t [])) = fatals t
   \<and> run_sched (sched @ join_sched [])
         (map Spawned [], \<lparr>ctx = TB_Helper t, fnErrs = [], crash = None\<rparr>)
       = ([], \<lparr>ctx = TB_Helper t, fnErrs = [], crash = None\<rparr>)"
proof -
  have "run_sched xs ([], sh) = ([], sh)" for xs sh
    by (induction xs) (simp_all add: run_sched_def sched_step_def)
  then show ?thesis by (simp add: ParallelFatal_def join_sched_def fatals_Helper)
qed

end
